theory Spec2Isabelle
  imports Main "HOL-Library.Word"
begin

unbundle bit_operations_syntax

section \<open>The test case of \<^verbatim>\<open>src/aunit/Test.h\<close>\<close>

subsection \<open>Data model\<close>

text \<open>\<^verbatim>\<open>enum class LifeCycle : uint8_t\<close> and \<^verbatim>\<open>enum class Status : uint8_t\<close>,
  constructors in the order of their enumerator values.\<close>

datatype LifeCycle = New | Excluded | Setup | Asserted | Finished

datatype Status = Unknown | Passed | Failed | Skipped | Expired

text \<open>The fields of \<^verbatim>\<open>class Test\<close>. The field \<^verbatim>\<open>mNext\<close> is the link of the
  intrusive list of registered tests; the list is kept as a whole in the program state
  below (\<open>root\<close>), so the record has no link field. The type \<^verbatim>\<open>Verbosity\<close> is
  declared in \<^verbatim>\<open>Verbosity.h\<close>, which is not among the sources: it is the parameter
  \<open>'v\<close> of the record.\<close>

record 'v Test =
  mName :: string
  mLifeCycle :: LifeCycle
  mStatus :: Status
  mVerbosity :: 'v

text \<open>Modelled from the spec: \<^verbatim>\<open>Verbosity.h\<close> is not among the sources. The spec
  calls the verbosity mask a bitset, changed by "bitwise OR/AND-NOT" and initialised to
  "none"; so wherever the code computes with a \<^verbatim>\<open>Verbosity\<close> it is a machine word
  of some width \<open>'w\<close>, and \<^verbatim>\<open>Verbosity::kNone\<close> is the word without any bit.\<close>

definition kNone :: "'w::len word" where
  "kNone = 0"

subsection \<open>Accessors and setters\<close>

definition getLifeCycle :: "'v Test \<Rightarrow> LifeCycle" where
  "getLifeCycle t = mLifeCycle t"

definition setLifeCycle :: "LifeCycle \<Rightarrow> 'v Test \<Rightarrow> 'v Test" where
  "setLifeCycle state t = t\<lparr>mLifeCycle := state\<rparr>"

definition getStatus :: "'v Test \<Rightarrow> Status" where
  "getStatus t = mStatus t"

definition setStatus :: "Status \<Rightarrow> 'v Test \<Rightarrow> 'v Test" where
  "setStatus status t =
     (let t' = (if status \<noteq> Unknown then setLifeCycle Asserted t else t)
      in t'\<lparr>mStatus := status\<rparr>)"

text \<open>Modelled from the spec: the body of \<^verbatim>\<open>Test::setPassOrFail\<close> is in
  \<^verbatim>\<open>Test.cpp\<close>, which is not among the sources; the header only declares it ("Set
  the status to Passed or Failed depending on ok"). The spec: "convenience that maps
  \<open>ok\<close> to \<open>Passed\<close>/\<open>Failed\<close> through \<open>setStatus\<close>".\<close>

definition setPassOrFail :: "bool \<Rightarrow> 'v Test \<Rightarrow> 'v Test" where
  "setPassOrFail ok t = setStatus (if ok then Passed else Failed) t"

subsection \<open>Status predicates\<close>

definition isDone :: "'v Test \<Rightarrow> bool" where
  "isDone t = (mStatus t \<noteq> Unknown)"

definition isNotDone :: "'v Test \<Rightarrow> bool" where
  "isNotDone t = (\<not> isDone t)"

definition isPassed :: "'v Test \<Rightarrow> bool" where
  "isPassed t = (mStatus t = Passed)"

definition isNotPassed :: "'v Test \<Rightarrow> bool" where
  "isNotPassed t = (\<not> isPassed t)"

definition isFailed :: "'v Test \<Rightarrow> bool" where
  "isFailed t = (mStatus t = Failed)"

definition isNotFailed :: "'v Test \<Rightarrow> bool" where
  "isNotFailed t = (\<not> isFailed t)"

definition isSkipped :: "'v Test \<Rightarrow> bool" where
  "isSkipped t = (mStatus t = Skipped)"

definition isNotSkipped :: "'v Test \<Rightarrow> bool" where
  "isNotSkipped t = (\<not> isSkipped t)"

definition isExpired :: "'v Test \<Rightarrow> bool" where
  "isExpired t = (mStatus t = Expired)"

definition isNotExpired :: "'v Test \<Rightarrow> bool" where
  "isNotExpired t = (\<not> isExpired t)"

subsection \<open>Self-reporting and verbosity\<close>

definition skip :: "'v Test \<Rightarrow> 'v Test" where
  "skip t = setStatus Skipped t"

definition expire :: "'v Test \<Rightarrow> 'v Test" where
  "expire t = setStatus Expired t"

definition enableVerbosity :: "'w::len word \<Rightarrow> 'w word Test \<Rightarrow> 'w word Test" where
  "enableVerbosity verbosity t = t\<lparr>mVerbosity := mVerbosity t OR verbosity\<rparr>"

definition disableVerbosity :: "'w::len word \<Rightarrow> 'w word Test \<Rightarrow> 'w word Test" where
  "disableVerbosity verbosity t = t\<lparr>mVerbosity := mVerbosity t AND NOT verbosity\<rparr>"

definition isVerbosity :: "'w::len word \<Rightarrow> 'w word Test \<Rightarrow> bool" where
  "isVerbosity verbosity t = (mVerbosity t AND verbosity \<noteq> kNone)"

definition getVerbosity :: "'w::len word Test \<Rightarrow> 'w word" where
  "getVerbosity t = mVerbosity t"

text \<open>\<^verbatim>\<open>fail()\<close> and \<^verbatim>\<open>pass()\<close> are protected: only the test's own body calls them.\<close>

definition fail :: "'v Test \<Rightarrow> 'v Test" where
  "fail t = setStatus Failed t"

definition pass :: "'v Test \<Rightarrow> 'v Test" where
  "pass t = setStatus Passed t"

text \<open>Modelled from the spec: the exclude and include operations are not in
  \<^verbatim>\<open>Test.h\<close> (they belong to the runner, which is not among the sources). The
  spec: "\<open>New \<rightarrow> Excluded\<close>: triggered by an explicit exclude operation; reversible via
  include (\<open>Excluded \<rightarrow> New\<close>)"; the life cycle of a test is written through
  \<^verbatim>\<open>setLifeCycle\<close>.\<close>

definition exclude_test :: "'v Test \<Rightarrow> 'v Test" where
  "exclude_test t = setLifeCycle Excluded t"

definition include_test :: "'v Test \<Rightarrow> 'v Test" where
  "include_test t = setLifeCycle New t"

subsection \<open>Sequences of operations on one test\<close>

text \<open>The operations that change a test after its construction, as data, so that
  statements about every sequence of calls can be made.\<close>

datatype 'v Operation =
    SetStatus Status
  | SetLifeCycle LifeCycle
  | SetPassOrFail bool
  | Pass
  | Fail
  | Skip
  | Expire
  | Exclude
  | Include
  | EnableVerbosity 'v
  | DisableVerbosity 'v

fun perform :: "'w::len word Operation \<Rightarrow> 'w word Test \<Rightarrow> 'w word Test" where
  "perform (SetStatus s) t = setStatus s t"
| "perform (SetLifeCycle l) t = setLifeCycle l t"
| "perform (SetPassOrFail ok) t = setPassOrFail ok t"
| "perform Pass t = pass t"
| "perform Fail t = fail t"
| "perform Skip t = skip t"
| "perform Expire t = expire t"
| "perform Exclude t = exclude_test t"
| "perform Include t = include_test t"
| "perform (EnableVerbosity v) t = enableVerbosity v t"
| "perform (DisableVerbosity v) t = disableVerbosity v t"

definition run :: "'w::len word Operation list \<Rightarrow> 'w word Test \<Rightarrow> 'w word Test" where
  "run ops t = fold perform ops t"

text \<open>The calls that the design supports: a status is never set back to \<open>Unknown\<close>,
  and \<open>Asserted\<close> is reached through the status setter, not written directly.\<close>

fun supported :: "'v Operation \<Rightarrow> bool" where
  "supported (SetStatus s) = (s \<noteq> Unknown)"
| "supported (SetLifeCycle l) = (l \<noteq> Asserted)"
| "supported _ = True"

text \<open>The calls that write the life cycle without going through the status setter.\<close>

fun writes_lifeCycle :: "'v Operation \<Rightarrow> bool" where
  "writes_lifeCycle (SetLifeCycle l) = True"
| "writes_lifeCycle Exclude = True"
| "writes_lifeCycle Include = True"
| "writes_lifeCycle _ = False"

text \<open>The calls that go through the status setter.\<close>

fun sets_status :: "'v Operation \<Rightarrow> bool" where
  "sets_status (SetStatus s) = True"
| "sets_status (SetPassOrFail ok) = True"
| "sets_status Pass = True"
| "sets_status Fail = True"
| "sets_status Skip = True"
| "sets_status Expire = True"
| "sets_status _ = False"

text \<open>The calls of a sequence that come after its last call of the status setter (the
  whole sequence when it has none), and the sequences in which no write of the life cycle
  follows the last call of the status setter.\<close>

definition after_last_decision :: "'v Operation list \<Rightarrow> 'v Operation list" where
  "after_last_decision ops = rev (takeWhile (\<lambda>op. \<not> sets_status op) (rev ops))"

definition decision_stands :: "'v Operation list \<Rightarrow> bool" where
  "decision_stands ops =
     (if list_ex sets_status ops
      then list_all (\<lambda>op. \<not> writes_lifeCycle op) (after_last_decision ops)
      else True)"

section \<open>The program state: instances, registry, name-length tracker, output\<close>

text \<open>One line of diagnostic output: the arguments with which
  \<^verbatim>\<open>printAssertionTestStatusMessage\<close> is called (its text layout belongs to the printer,
  which is not among the sources). The ten message constants of
  \<^verbatim>\<open>class MetaAssertion\<close> are declared in the header and defined elsewhere; they are
  kept as ten distinct constants.\<close>

datatype Message =
    kMessageIsDone | kMessageIsNotDone
  | kMessageIsPassed | kMessageIsNotPassed
  | kMessageIsFailed | kMessageIsNotFailed
  | kMessageIsSkipped | kMessageIsNotSkipped
  | kMessageIsExpired | kMessageIsNotExpired

record Diagnostic =
  dOk :: bool
  dFile :: string
  dLine :: "16 word"
  dTestName :: string
  dStatusMessage :: Message

text \<open>The test objects are the global variables \<^verbatim>\<open>test_<name>_instance\<close>, addressed
  by their declared name (the macros resolve the name at compile time, so every name that
  a body mentions denotes an object). \<open>root\<close> is the linked list behind
  \<^verbatim>\<open>getRoot()\<close> as the sequence of the linked instances, \<open>maxLength\<close> the static
  member \<^verbatim>\<open>Test::maxLength\<close> (a \<^verbatim>\<open>size_t\<close>; it only ever receives a
  \<^verbatim>\<open>strlen\<close> or an argument, so no arithmetic can wrap), \<open>printed\<close> the output so
  far.\<close>

record 'v World =
  instances :: "string \<Rightarrow> 'v Test"
  root :: "string list"
  maxLength :: nat
  printed :: "Diagnostic list"

text \<open>\<^verbatim>\<open>strlen\<close> on the characters found at a \<^verbatim>\<open>const char*\<close>: the number of
  characters before the first NUL.\<close>

definition strlen :: "string \<Rightarrow> nat" where
  "strlen name = length (takeWhile (\<lambda>c. c \<noteq> CHR 0x00) name)"

text \<open>Modelled from the spec: the body of \<^verbatim>\<open>Test::insert\<close> is in
  \<^verbatim>\<open>Test.cpp\<close>, which is not among the sources. The spec: every constructed test
  "is inserted into the registry exactly once, at construction time, in construction order
  (insertion order is preserved; no reordering, no deduplication by name)".\<close>

definition insert_test :: "string \<Rightarrow> 'v World \<Rightarrow> 'v World" where
  "insert_test this w = w\<lparr>root := root w @ [this]\<rparr>"

text \<open>\<^verbatim>\<open>Test::init(const char* name)\<close>, called by the constructor of every declared
  test; \<open>this\<close> is the object it runs on.\<close>

definition init :: "string \<Rightarrow> string \<Rightarrow> 'w::len word World \<Rightarrow> 'w word World" where
  "init this name w =
     (let w1 = w\<lparr>maxLength := max (maxLength w) (strlen name)\<rparr>;
          w2 = w1\<lparr>instances := (instances w1)(this := (instances w1 this)
                  \<lparr>mName := name, mLifeCycle := New, mStatus := Unknown, mVerbosity := kNone\<rparr>)\<rparr>
      in insert_test this w2)"

definition displayMinPosition :: "nat \<Rightarrow> 'v World \<Rightarrow> 'v World" where
  "displayMinPosition pos w = w\<lparr>maxLength := pos\<rparr>"

text \<open>Modelled from the spec: the definition of the static member
  \<^verbatim>\<open>Test::maxLength\<close> (and with it its initial value) is in \<^verbatim>\<open>Test.cpp\<close>,
  which is not among the sources. The spec: the tracker "tracks the longest test name seen";
  before any registration no name has been seen.\<close>

definition initial_maxLength :: nat where
  "initial_maxLength = 0"

text \<open>Registering a list of tests, each given as (object, name), in the order of the
  list.\<close>

definition register :: "(string \<times> string) list \<Rightarrow> 'w::len word World \<Rightarrow> 'w word World" where
  "register decls w = fold (\<lambda>(this, name). init this name) decls w"

section \<open>Meta-assertions of \<^verbatim>\<open>src/aunit/MetaAssertion.h\<close>\<close>

subsection \<open>The checking form\<close>

text \<open>Each macro is the expression \<^verbatim>\<open>(test_<name>_instance.isXxx())\<close>. An expression
  is evaluated in a state and gives a value and the state after it.\<close>

definition checkTestDone :: "string \<Rightarrow> 'v World \<Rightarrow> bool \<times> 'v World" where
  "checkTestDone name w = (isDone (instances w name), w)"

definition checkTestNotDone :: "string \<Rightarrow> 'v World \<Rightarrow> bool \<times> 'v World" where
  "checkTestNotDone name w = (isNotDone (instances w name), w)"

definition checkTestPass :: "string \<Rightarrow> 'v World \<Rightarrow> bool \<times> 'v World" where
  "checkTestPass name w = (isPassed (instances w name), w)"

definition checkTestNotPass :: "string \<Rightarrow> 'v World \<Rightarrow> bool \<times> 'v World" where
  "checkTestNotPass name w = (isNotPassed (instances w name), w)"

definition checkTestFail :: "string \<Rightarrow> 'v World \<Rightarrow> bool \<times> 'v World" where
  "checkTestFail name w = (isFailed (instances w name), w)"

definition checkTestNotFail :: "string \<Rightarrow> 'v World \<Rightarrow> bool \<times> 'v World" where
  "checkTestNotFail name w = (isNotFailed (instances w name), w)"

definition checkTestSkip :: "string \<Rightarrow> 'v World \<Rightarrow> bool \<times> 'v World" where
  "checkTestSkip name w = (isSkipped (instances w name), w)"

definition checkTestNotSkip :: "string \<Rightarrow> 'v World \<Rightarrow> bool \<times> 'v World" where
  "checkTestNotSkip name w = (isNotSkipped (instances w name), w)"

definition checkTestExpire :: "string \<Rightarrow> 'v World \<Rightarrow> bool \<times> 'v World" where
  "checkTestExpire name w = (isExpired (instances w name), w)"

definition checkTestNotExpire :: "string \<Rightarrow> 'v World \<Rightarrow> bool \<times> 'v World" where
  "checkTestNotExpire name w = (isNotExpired (instances w name), w)"

text \<open>A check is a pure read when it gives the state back as it was and its value is a
  function of the status of the named test alone.\<close>

definition pure_read :: "(string \<Rightarrow> 'v World \<Rightarrow> bool \<times> 'v World) \<Rightarrow> bool" where
  "pure_read check =
     ((\<forall>name w. snd (check name w) = w) \<and>
      (\<exists>f. \<forall>name w. fst (check name w) = f (mStatus (instances w name))))"

subsection \<open>The asserting form\<close>

text \<open>Modelled from the spec: \<^verbatim>\<open>MetaAssertion::printAssertionTestStatusMessage\<close> is
  declared in the header and defined in \<^verbatim>\<open>MetaAssertion.cpp\<close>, which is not among
  the sources. The spec: "emit a diagnostic identifying the caller's location, the target
  test's name, and the expected-condition message". The diagnostic is kept as the arguments
  of the call.\<close>

definition printAssertionTestStatusMessage ::
  "bool \<Rightarrow> string \<Rightarrow> 16 word \<Rightarrow> string \<Rightarrow> Message \<Rightarrow> 'v World \<Rightarrow> 'v World" where
  "printAssertionTestStatusMessage ok' file' line' testName' statusMessage' w =
     w\<lparr>printed := printed w @
        [\<lparr>dOk = ok', dFile = file', dLine = line', dTestName = testName',
          dStatusMessage = statusMessage'\<rparr>]\<rparr>"

text \<open>Modelled from the spec: the body of \<^verbatim>\<open>MetaAssertion::assertionTestStatus\<close> is
  in \<^verbatim>\<open>MetaAssertion.cpp\<close>, which is not among the sources; the header declares it
  ("Set the status of the current test based on 'ok, and print assertion message if
  requested"). The spec: "If true, no output occurs (or minimal output under verbose mode)
  and execution of the caller continues normally. If false, emit a diagnostic identifying
  the caller's location, the target test's name, and the expected-condition message, mark
  the calling test's own status as \<open>Failed\<close> via \<open>setStatus\<close>, and cause the calling
  test's current step invocation to return immediately". \<open>this\<close> is the calling test,
  \<open>verbose\<close> the verbosity flag that stands for the verbose mode.\<close>

definition assertionTestStatus ::
  "'w::len word \<Rightarrow> string \<Rightarrow> string \<Rightarrow> 16 word \<Rightarrow> string \<Rightarrow> Message \<Rightarrow> bool \<Rightarrow>
   'w word World \<Rightarrow> bool \<times> 'w word World" where
  "assertionTestStatus verbose this file' line' testName' statusMessage' ok' w =
     (if ok' then
        (True,
         if isVerbosity verbose (instances w this)
         then printAssertionTestStatusMessage True file' line' testName' statusMessage' w
         else w)
      else
        (let w1 = printAssertionTestStatusMessage False file' line' testName' statusMessage' w
         in (False, w1\<lparr>instances := (instances w1)(this := setStatus Failed (instances w1 this))\<rparr>)))"

text \<open>The macro \<^verbatim>\<open>assertTestStatus(name,method,message)\<close> inside the body of the test
  \<open>this\<close>, at the place \<open>file'\<close>, \<open>line'\<close>. \<open>rest\<close> is what the body does after
  the macro; \<^verbatim>\<open>return\<close> leaves the body without running it.\<close>

definition assertTestStatus ::
  "'w::len word \<Rightarrow> string \<Rightarrow> string \<Rightarrow> 16 word \<Rightarrow> string \<Rightarrow> ('w word Test \<Rightarrow> bool) \<Rightarrow> Message \<Rightarrow>
   ('w word World \<Rightarrow> 'w word World) \<Rightarrow> 'w word World \<Rightarrow> 'w word World" where
  "assertTestStatus verbose this file' line' name method message rest w =
     (case assertionTestStatus verbose this file' line' name message
             (method (instances w name)) w of
        (ok', w') \<Rightarrow> if \<not> ok' then w' else rest w')"

definition assertTestDone where
  "assertTestDone verbose this file' line' name =
     assertTestStatus verbose this file' line' name isDone kMessageIsDone"

definition assertTestNotDone where
  "assertTestNotDone verbose this file' line' name =
     assertTestStatus verbose this file' line' name isNotDone kMessageIsNotDone"

definition assertTestPass where
  "assertTestPass verbose this file' line' name =
     assertTestStatus verbose this file' line' name isPassed kMessageIsPassed"

definition assertTestNotPass where
  "assertTestNotPass verbose this file' line' name =
     assertTestStatus verbose this file' line' name isNotPassed kMessageIsNotPassed"

definition assertTestFail where
  "assertTestFail verbose this file' line' name =
     assertTestStatus verbose this file' line' name isFailed kMessageIsFailed"

definition assertTestNotFail where
  "assertTestNotFail verbose this file' line' name =
     assertTestStatus verbose this file' line' name isNotFailed kMessageIsNotFailed"

definition assertTestSkip where
  "assertTestSkip verbose this file' line' name =
     assertTestStatus verbose this file' line' name isSkipped kMessageIsSkipped"

definition assertTestNotSkip where
  "assertTestNotSkip verbose this file' line' name =
     assertTestStatus verbose this file' line' name isNotSkipped kMessageIsNotSkipped"

definition assertTestExpire where
  "assertTestExpire verbose this file' line' name =
     assertTestStatus verbose this file' line' name isExpired kMessageIsExpired"

definition assertTestNotExpire where
  "assertTestNotExpire verbose this file' line' name =
     assertTestStatus verbose this file' line' name isNotExpired kMessageIsNotExpired"

text \<open>The state in which the declared tests are constructed: nothing registered, nothing
  printed, the tracker at its initial value. The objects have static storage; before their
  constructor has run their fields hold the zero bytes of static storage.\<close>

definition start :: "'w::len word World" where
  "start =
     \<lparr>instances = (\<lambda>_. \<lparr>mName = [], mLifeCycle = New, mStatus = Unknown, mVerbosity = kNone\<rparr>),
      root = [], maxLength = initial_maxLength, printed = []\<rparr>"

text \<open>The second end-to-end scenario of the spec: the tests \<open>A\<close> and \<open>B\<close> are
  declared in that order, and \<open>A\<close> has called \<^verbatim>\<open>fail()\<close>.\<close>

definition scenario :: "8 word World" where
  "scenario = (let w = init ''B'' ''B'' (init ''A'' ''A'' start)
               in w\<lparr>instances := (instances w)(''A'' := fail (instances w ''A''))\<rparr>)"

section \<open>Field-wise effect of the setters and of construction\<close>

lemma setStatus_fields:
  "mStatus (setStatus s t) = s"
  "mLifeCycle (setStatus s t) = (if s \<noteq> Unknown then Asserted else mLifeCycle t)"
  "mName (setStatus s t) = mName t"
  "mVerbosity (setStatus s t) = mVerbosity t"
  by (simp_all add: setStatus_def setLifeCycle_def Let_def)

lemma setLifeCycle_fields:
  "mStatus (setLifeCycle l t) = mStatus t"
  "mLifeCycle (setLifeCycle l t) = l"
  "mName (setLifeCycle l t) = mName t"
  "mVerbosity (setLifeCycle l t) = mVerbosity t"
  by (simp_all add: setLifeCycle_def)

lemma init_instance:
  "instances (init this name w) this =
     \<lparr>mName = name, mLifeCycle = New, mStatus = Unknown, mVerbosity = kNone\<rparr>"
  by (simp add: init_def insert_test_def Let_def)

lemma init_other_instance:
  "a \<noteq> this \<Longrightarrow> instances (init this name w) a = instances w a"
  by (simp add: init_def insert_test_def Let_def)

section \<open>Status and life cycle\<close>

text \<open>The biconditional between status and life cycle does not survive every sequence of
  public calls on a constructed test: the driver's step from \<open>Asserted\<close> to
  \<open>Finished\<close> leaves a decided status behind; \<^verbatim>\<open>setLifeCycle(Asserted)\<close> makes a
  test asserted with no status; \<^verbatim>\<open>setStatus(Unknown)\<close> takes the status away from an
  asserted test.\<close>

theorem status_lifeCycle_biconditional_counterexample:
  "\<not> ((mStatus (run [Pass, SetLifeCycle Finished]
              (instances (init ''a'' ''a'' (start :: 8 word World)) ''a'')) \<noteq> Unknown)
       = (mLifeCycle (run [Pass, SetLifeCycle Finished]
              (instances (init ''a'' ''a'' (start :: 8 word World)) ''a'')) = Asserted)) \<and>
   \<not> ((mStatus (run [SetLifeCycle Asserted]
              (instances (init ''a'' ''a'' (start :: 8 word World)) ''a'')) \<noteq> Unknown)
       = (mLifeCycle (run [SetLifeCycle Asserted]
              (instances (init ''a'' ''a'' (start :: 8 word World)) ''a'')) = Asserted)) \<and>
   \<not> ((mStatus (run [Pass, SetStatus Unknown]
              (instances (init ''a'' ''a'' (start :: 8 word World)) ''a'')) \<noteq> Unknown)
       = (mLifeCycle (run [Pass, SetStatus Unknown]
              (instances (init ''a'' ''a'' (start :: 8 word World)) ''a'')) = Asserted))"
  by (simp add: run_def init_instance pass_def setStatus_fields setLifeCycle_fields)

lemma perform_keeps_asserted_decided:
  assumes "supported op" and "mLifeCycle t = Asserted \<longrightarrow> mStatus t \<noteq> Unknown"
  shows "mLifeCycle (perform op t) = Asserted \<longrightarrow> mStatus (perform op t) \<noteq> Unknown"
  using assms
  by (cases op)
     (simp_all add: setStatus_fields setLifeCycle_fields setPassOrFail_def pass_def fail_def
        skip_def expire_def exclude_test_def include_test_def enableVerbosity_def
        disableVerbosity_def)

lemma perform_keeps_biconditional:
  assumes "supported op" and "\<not> writes_lifeCycle op"
    and "(mStatus t \<noteq> Unknown) = (mLifeCycle t = Asserted)"
  shows "(mStatus (perform op t) \<noteq> Unknown) = (mLifeCycle (perform op t) = Asserted)"
  using assms
  by (cases op)
     (simp_all add: setStatus_fields setPassOrFail_def pass_def fail_def
        skip_def expire_def enableVerbosity_def disableVerbosity_def)

lemma run_keeps_asserted_decided:
  assumes "\<forall>op \<in> set ops. supported op"
    and "mLifeCycle t = Asserted \<longrightarrow> mStatus t \<noteq> Unknown"
  shows "mLifeCycle (run ops t) = Asserted \<longrightarrow> mStatus (run ops t) \<noteq> Unknown"
  using assms unfolding run_def
proof (induction ops arbitrary: t)
  case Nil
  then show ?case by simp
next
  case (Cons op ops)
  have "mLifeCycle (perform op t) = Asserted \<longrightarrow> mStatus (perform op t) \<noteq> Unknown"
    using Cons.prems by (intro perform_keeps_asserted_decided) simp_all
  then show ?case using Cons.IH [of "perform op t"] Cons.prems(1) by simp
qed

lemma run_keeps_biconditional:
  assumes "\<forall>op \<in> set ops. supported op" and "\<forall>op \<in> set ops. \<not> writes_lifeCycle op"
    and "(mStatus t \<noteq> Unknown) = (mLifeCycle t = Asserted)"
  shows "(mStatus (run ops t) \<noteq> Unknown) = (mLifeCycle (run ops t) = Asserted)"
  using assms unfolding run_def
proof (induction ops arbitrary: t)
  case Nil
  then show ?case by simp
next
  case (Cons op ops)
  have "(mStatus (perform op t) \<noteq> Unknown) = (mLifeCycle (perform op t) = Asserted)"
    using Cons.prems by (intro perform_keeps_biconditional) simp_all
  then show ?case using Cons.IH [of "perform op t"] Cons.prems(1,2) by simp
qed

lemma run_append: "run (xs @ ys) t = run ys (run xs t)"
  by (simp add: run_def)

lemma perform_keeps_status:
  assumes "\<not> sets_status op"
  shows "mStatus (perform op t) = mStatus t"
  using assms
  by (cases op)
     (simp_all add: setLifeCycle_fields exclude_test_def include_test_def enableVerbosity_def
        disableVerbosity_def)

lemma run_keeps_status:
  assumes "\<forall>op \<in> set ops. \<not> sets_status op"
  shows "mStatus (run ops t) = mStatus t"
  using assms unfolding run_def
proof (induction ops arbitrary: t)
  case Nil
  then show ?case by simp
next
  case (Cons op ops)
  then show ?case by (simp add: perform_keeps_status)
qed

lemma perform_decision:
  assumes "sets_status op" and "supported op"
  shows "mStatus (perform op t) \<noteq> Unknown \<and> mLifeCycle (perform op t) = Asserted"
  using assms
  by (cases op)
     (simp_all add: setStatus_fields setPassOrFail_def pass_def fail_def skip_def expire_def)

lemma perform_write_not_asserted:
  assumes "writes_lifeCycle op" and "supported op"
  shows "mLifeCycle (perform op t) \<noteq> Asserted"
  using assms
  by (cases op) (simp_all add: setLifeCycle_fields exclude_test_def include_test_def)

lemma perform_other_keeps_lifeCycle:
  assumes "\<not> writes_lifeCycle op" and "\<not> sets_status op"
  shows "mLifeCycle (perform op t) = mLifeCycle t"
  using assms
  by (cases op) (simp_all add: enableVerbosity_def disableVerbosity_def)

lemma run_write_not_asserted:
  assumes "\<forall>op \<in> set ops. supported op \<and> \<not> sets_status op"
    and "\<exists>op \<in> set ops. writes_lifeCycle op"
  shows "mLifeCycle (run ops t) \<noteq> Asserted"
  using assms
proof (induction ops rule: rev_induct)
  case Nil
  then show ?case by simp
next
  case (snoc op ops)
  show ?case
  proof (cases "writes_lifeCycle op")
    case True
    then show ?thesis using snoc.prems(1)
      by (simp add: run_append run_def perform_write_not_asserted)
  next
    case False
    then have "\<exists>op \<in> set ops. writes_lifeCycle op" using snoc.prems(2) by auto
    then have "mLifeCycle (run ops t) \<noteq> Asserted" using snoc.IH snoc.prems(1) by simp
    then show ?thesis using False snoc.prems(1)
      by (simp add: run_append run_def perform_other_keeps_lifeCycle)
  qed
qed

lemma after_last_decision_split:
  assumes "sets_status d" and "\<forall>op \<in> set post. \<not> sets_status op"
  shows "after_last_decision (pre @ d # post) = post"
proof -
  have "takeWhile (\<lambda>op. \<not> sets_status op) (rev post @ d # rev pre)
      = rev post @ takeWhile (\<lambda>op. \<not> sets_status op) (d # rev pre)"
    using assms(2) by (intro takeWhile_append2) simp
  then have "takeWhile (\<lambda>op. \<not> sets_status op) (rev post @ d # rev pre) = rev post"
    using assms(1) by simp
  then show ?thesis by (simp add: after_last_decision_def)
qed

text \<open>C1, as the code has it. Take a test as \<^verbatim>\<open>init\<close> leaves it and any sequence
  of the calls \<^verbatim>\<open>setStatus(s)\<close> with \<open>s \<noteq> Unknown\<close>, \<^verbatim>\<open>setLifeCycle(l)\<close> with
  \<open>l \<noteq> Asserted\<close>, \<^verbatim>\<open>setPassOrFail\<close>, \<^verbatim>\<open>pass\<close>, \<^verbatim>\<open>fail\<close>,
  \<^verbatim>\<open>skip\<close>, \<^verbatim>\<open>expire\<close>, exclude, include and the two verbosity calls. Afterwards
  a life cycle of \<open>Asserted\<close> implies a status other than \<open>Unknown\<close>. When no write
  of the life cycle (\<^verbatim>\<open>setLifeCycle\<close>, exclude, include) follows the last
  status-setting call of the sequence, the status is other than \<open>Unknown\<close> if and only if
  the life cycle is \<open>Asserted\<close>; this covers the path from \<open>New\<close> over \<open>Setup\<close> to
  \<open>Asserted\<close>. When such a write does follow the last status-setting call, the status
  is decided and the life cycle is no longer \<open>Asserted\<close>.\<close>

theorem status_lifeCycle_invariant:
  assumes "\<forall>op \<in> set ops. supported op"
  shows "(mLifeCycle (run ops (instances (init this name w) this)) = Asserted \<longrightarrow>
            mStatus (run ops (instances (init this name w) this)) \<noteq> Unknown) \<and>
         (decision_stands ops \<longrightarrow>
            (mStatus (run ops (instances (init this name w) this)) \<noteq> Unknown)
            = (mLifeCycle (run ops (instances (init this name w) this)) = Asserted)) \<and>
         (\<not> decision_stands ops \<longrightarrow>
            mStatus (run ops (instances (init this name w) this)) \<noteq> Unknown \<and>
            mLifeCycle (run ops (instances (init this name w) this)) \<noteq> Asserted)"
proof -
  let ?t = "instances (init this name w) this"
  have fresh: "mLifeCycle ?t = New" "mStatus ?t = Unknown"
    by (simp_all add: init_instance)
  have one: "mLifeCycle (run ops ?t) = Asserted \<longrightarrow> mStatus (run ops ?t) \<noteq> Unknown"
    using assms fresh by (intro run_keeps_asserted_decided) simp_all
  show ?thesis
  proof (cases "\<exists>op \<in> set ops. sets_status op")
    case False
    then have "mStatus (run ops ?t) = Unknown"
      using fresh by (simp add: run_keeps_status)
    moreover have "decision_stands ops"
      using False by (simp add: decision_stands_def list_ex_iff)
    ultimately show ?thesis using one by auto
  next
    case True
    then obtain pre d post where split: "ops = pre @ d # post"
      and d: "sets_status d" and post: "\<forall>op \<in> set post. \<not> sets_status op"
      using split_list_last_prop [of ops sets_status] by blast
    have stands: "decision_stands ops = (\<forall>op \<in> set post. \<not> writes_lifeCycle op)"
      using True d post
      by (simp add: decision_stands_def list_ex_iff list_all_iff split
            after_last_decision_split)
    let ?u = "perform d (run pre ?t)"
    have run: "run ops ?t = run post ?u"
      by (simp add: split run_def)
    have u: "mStatus ?u \<noteq> Unknown" "mLifeCycle ?u = Asserted"
      using d assms by (simp_all add: split perform_decision)
    have status: "mStatus (run ops ?t) \<noteq> Unknown"
      using u(1) post by (simp add: run run_keeps_status)
    show ?thesis
    proof (cases "decision_stands ops")
      case True
      then have "(mStatus (run post ?u) \<noteq> Unknown) = (mLifeCycle (run post ?u) = Asserted)"
        using assms u stands by (intro run_keeps_biconditional) (simp_all add: split)
      then show ?thesis using True one by (simp add: run)
    next
      case False
      then have "\<exists>op \<in> set post. writes_lifeCycle op" using stands by simp
      then have "mLifeCycle (run post ?u) \<noteq> Asserted"
        using assms post by (intro run_write_not_asserted) (simp_all add: split)
      then show ?thesis using False status by (simp add: run)
    qed
  qed
qed

text \<open>The invariant on the path \<open>New\<close>, \<open>Setup\<close>, \<open>Asserted\<close>, and on the same
  path followed by the step to \<open>Finished\<close>.\<close>

theorem status_lifeCycle_invariant_witness:
  "supported (SetLifeCycle Setup :: 8 word Operation) \<and>
   supported (Pass :: 8 word Operation) \<and>
   supported (EnableVerbosity (1 :: 8 word)) \<and>
   supported (SetLifeCycle Finished :: 8 word Operation) \<and>
   decision_stands [SetLifeCycle Setup, Pass, EnableVerbosity (1 :: 8 word)] \<and>
   mStatus (run [SetLifeCycle Setup, Pass, EnableVerbosity 1]
      (instances (init ''a'' ''a'' (start :: 8 word World)) ''a'')) \<noteq> Unknown \<and>
   mLifeCycle (run [SetLifeCycle Setup, Pass, EnableVerbosity 1]
      (instances (init ''a'' ''a'' (start :: 8 word World)) ''a'')) = Asserted \<and>
   \<not> decision_stands [SetLifeCycle Setup, Pass, SetLifeCycle Finished :: 8 word Operation] \<and>
   mStatus (run [SetLifeCycle Setup, Pass, SetLifeCycle Finished]
      (instances (init ''a'' ''a'' (start :: 8 word World)) ''a'')) \<noteq> Unknown \<and>
   mLifeCycle (run [SetLifeCycle Setup, Pass, SetLifeCycle Finished]
      (instances (init ''a'' ''a'' (start :: 8 word World)) ''a'')) \<noteq> Asserted"
  using status_lifeCycle_invariant
    [of "[SetLifeCycle Setup, Pass, EnableVerbosity (1 :: 8 word)]" "''a''" "''a''" start]
    status_lifeCycle_invariant
    [of "[SetLifeCycle Setup, Pass, SetLifeCycle Finished :: 8 word Operation]" "''a''" "''a''" start]
  by (simp add: decision_stands_def after_last_decision_def run_def init_instance pass_def
        enableVerbosity_def setStatus_fields setLifeCycle_fields)

text \<open>C2. After \<^verbatim>\<open>setStatus(s)\<close> with \<open>s \<noteq> Unknown\<close> the life cycle is
  \<open>Asserted\<close> and the status is \<open>s\<close>. The status leaves \<open>Unknown\<close> through
  \<^verbatim>\<open>setStatus\<close> only: whenever one of the operations takes a test from \<open>Unknown\<close>
  to another status, its effect on the test is that of \<^verbatim>\<open>setStatus(s')\<close> for some
  \<open>s' \<noteq> Unknown\<close>; construction never takes the status of any test away from
  \<open>Unknown\<close>; and \<^verbatim>\<open>pass\<close>, \<^verbatim>\<open>fail\<close>, \<^verbatim>\<open>skip\<close>, \<^verbatim>\<open>expire\<close> and
  \<^verbatim>\<open>setPassOrFail\<close> are calls of \<^verbatim>\<open>setStatus\<close>.\<close>

theorem setStatus_only_way_out_of_Unknown:
  "(s \<noteq> Unknown \<longrightarrow> mLifeCycle (setStatus s t) = Asserted \<and> mStatus (setStatus s t) = s) \<and>
   (mStatus t = Unknown \<and> mStatus (perform op t) \<noteq> Unknown \<longrightarrow>
      (\<exists>s'. s' \<noteq> Unknown \<and> perform op t = setStatus s' t)) \<and>
   (mStatus (instances w a) = Unknown \<longrightarrow> mStatus (instances (init this name w) a) = Unknown) \<and>
   pass t = setStatus Passed t \<and> fail t = setStatus Failed t \<and>
   skip t = setStatus Skipped t \<and> expire t = setStatus Expired t \<and>
   setPassOrFail ok t = setStatus (if ok then Passed else Failed) t"
proof -
  have a: "s \<noteq> Unknown \<longrightarrow> mLifeCycle (setStatus s t) = Asserted \<and> mStatus (setStatus s t) = s"
    by (simp add: setStatus_fields)
  have b: "\<exists>s'. s' \<noteq> Unknown \<and> perform op t = setStatus s' t"
    if "mStatus t = Unknown" and "mStatus (perform op t) \<noteq> Unknown"
  proof (cases op)
    case (SetStatus x)
    then show ?thesis using that by (auto simp: setStatus_fields)
  next
    case (SetLifeCycle l)
    then show ?thesis using that by (simp add: setLifeCycle_fields)
  next
    case (SetPassOrFail ok')
    then show ?thesis by (cases ok') (auto simp: setPassOrFail_def)
  next
    case Pass then show ?thesis by (auto simp: pass_def)
  next
    case Fail then show ?thesis by (auto simp: fail_def)
  next
    case Skip then show ?thesis by (auto simp: skip_def)
  next
    case Expire then show ?thesis by (auto simp: expire_def)
  next
    case Exclude then show ?thesis using that by (simp add: exclude_test_def setLifeCycle_fields)
  next
    case Include then show ?thesis using that by (simp add: include_test_def setLifeCycle_fields)
  next
    case (EnableVerbosity v) then show ?thesis using that by (simp add: enableVerbosity_def)
  next
    case (DisableVerbosity v) then show ?thesis using that by (simp add: disableVerbosity_def)
  qed
  have c: "mStatus (instances w a) = Unknown \<longrightarrow>
      mStatus (instances (init this name w) a) = Unknown"
    by (cases "a = this") (simp_all add: init_instance init_other_instance)
  have d: "pass t = setStatus Passed t \<and> fail t = setStatus Failed t \<and>
      skip t = setStatus Skipped t \<and> expire t = setStatus Expired t \<and>
      setPassOrFail ok t = setStatus (if ok then Passed else Failed) t"
    by (simp add: pass_def fail_def skip_def expire_def setPassOrFail_def)
  show ?thesis using a b c d by blast
qed

text \<open>At a freshly constructed test: \<^verbatim>\<open>setStatus(Skipped)\<close> asserts it,
  \<^verbatim>\<open>setPassOrFail(false)\<close> takes it out of \<open>Unknown\<close> as \<^verbatim>\<open>setStatus\<close> does, and
  constructing a second test leaves its status \<open>Unknown\<close>.\<close>

theorem setStatus_only_way_out_of_Unknown_witness:
  "Skipped \<noteq> Unknown \<and>
   mLifeCycle (setStatus Skipped (instances (init ''a'' ''a'' (start :: 8 word World)) ''a'')) = Asserted \<and>
   mStatus (setStatus Skipped (instances (init ''a'' ''a'' (start :: 8 word World)) ''a'')) = Skipped \<and>
   mStatus (instances (init ''a'' ''a'' (start :: 8 word World)) ''a'') = Unknown \<and>
   mStatus (perform (SetPassOrFail False) (instances (init ''a'' ''a'' (start :: 8 word World)) ''a''))
     \<noteq> Unknown \<and>
   (\<exists>s'. s' \<noteq> Unknown \<and>
      perform (SetPassOrFail False) (instances (init ''a'' ''a'' (start :: 8 word World)) ''a'')
      = setStatus s' (instances (init ''a'' ''a'' (start :: 8 word World)) ''a'')) \<and>
   mStatus (instances (init ''b'' ''b'' (init ''a'' ''a'' (start :: 8 word World))) ''a'') = Unknown"
  using setStatus_only_way_out_of_Unknown
    [of Skipped "instances (init ''a'' ''a'' (start :: 8 word World)) ''a''" "SetPassOrFail False"
        "init ''a'' ''a'' (start :: 8 word World)" "''a''" "''b''" "''b''"]
  by (simp add: init_instance setStatus_fields setPassOrFail_def)

text \<open>C9. Setting the status to \<open>Unknown\<close> writes \<open>Unknown\<close> into the status and does
  not touch the life cycle, whatever the state of the test; so \<^verbatim>\<open>pass()\<close> followed by
  \<^verbatim>\<open>setStatus(Unknown)\<close> leaves a test whose status is \<open>Unknown\<close> and whose life
  cycle is still \<open>Asserted\<close>.\<close>

theorem setStatus_Unknown_keeps_lifeCycle:
  "mStatus (setStatus Unknown t) = Unknown \<and>
   mLifeCycle (setStatus Unknown t) = mLifeCycle t \<and>
   mStatus (setStatus Unknown (pass t)) = Unknown \<and>
   mLifeCycle (setStatus Unknown (pass t)) = Asserted"
  by (simp add: setStatus_fields pass_def)

text \<open>C6. \<^verbatim>\<open>setPassOrFail(true)\<close> gives the status \<open>Passed\<close>,
  \<^verbatim>\<open>setPassOrFail(false)\<close> gives \<open>Failed\<close>, and both leave the life cycle
  \<open>Asserted\<close>, for every test.\<close>

theorem setPassOrFail_result:
  "mStatus (setPassOrFail True t) = Passed \<and>
   mLifeCycle (setPassOrFail True t) = Asserted \<and>
   mStatus (setPassOrFail False t) = Failed \<and>
   mLifeCycle (setPassOrFail False t) = Asserted"
  by (simp add: setPassOrFail_def setStatus_fields)

text \<open>C5. On a fresh test (life cycle \<open>New\<close>, status \<open>Unknown\<close>) exclude followed by
  include gives life cycle \<open>New\<close> and status \<open>Unknown\<close> again; in between the test
  is \<open>Excluded\<close>, and the round trip gives back the very same test.\<close>

theorem exclude_include_round_trip:
  assumes "mLifeCycle t = New" and "mStatus t = Unknown"
  shows "mLifeCycle (include_test (exclude_test t)) = New \<and>
         mStatus (include_test (exclude_test t)) = Unknown \<and>
         mLifeCycle (exclude_test t) = Excluded \<and>
         include_test (exclude_test t) = t"
  using assms by (simp add: include_test_def exclude_test_def setLifeCycle_def)

text \<open>The round trip on the test that \<^verbatim>\<open>init\<close> has just constructed.\<close>

theorem exclude_include_round_trip_witness:
  "mLifeCycle (instances (init ''a'' ''a'' (start :: 8 word World)) ''a'') = New \<and>
   mStatus (instances (init ''a'' ''a'' (start :: 8 word World)) ''a'') = Unknown \<and>
   mLifeCycle (include_test (exclude_test (instances (init ''a'' ''a'' (start :: 8 word World)) ''a''))) = New \<and>
   mStatus (include_test (exclude_test (instances (init ''a'' ''a'' (start :: 8 word World)) ''a''))) = Unknown"
  using exclude_include_round_trip [of "instances (init ''a'' ''a'' (start :: 8 word World)) ''a''"]
  by (simp add: init_instance)

text \<open>C10. In every state of a test at most one of \<^verbatim>\<open>isPassed\<close>,
  \<^verbatim>\<open>isFailed\<close>, \<^verbatim>\<open>isSkipped\<close>, \<^verbatim>\<open>isExpired\<close> is true; \<^verbatim>\<open>isDone\<close> is
  true if and only if exactly one of the four is; each negated predicate is the negation
  of its positive counterpart.\<close>

theorem status_predicates_exclusive:
  "length (filter id [isPassed t, isFailed t, isSkipped t, isExpired t]) \<le> 1 \<and>
   isDone t = (length (filter id [isPassed t, isFailed t, isSkipped t, isExpired t]) = 1) \<and>
   isNotDone t = (\<not> isDone t) \<and>
   isNotPassed t = (\<not> isPassed t) \<and>
   isNotFailed t = (\<not> isFailed t) \<and>
   isNotSkipped t = (\<not> isSkipped t) \<and>
   isNotExpired t = (\<not> isExpired t)"
  by (cases "mStatus t")
     (simp_all add: isDone_def isNotDone_def isPassed_def isNotPassed_def isFailed_def
        isNotFailed_def isSkipped_def isNotSkipped_def isExpired_def isNotExpired_def)

section \<open>Verbosity\<close>

text \<open>Enabling and then disabling a flag is not the identity on every mask: with the bit
  already set before, the bit is gone afterwards.\<close>

theorem enable_disable_counterexample:
  "mVerbosity (disableVerbosity 1 (enableVerbosity 1
      \<lparr>mName = ''t'', mLifeCycle = New, mStatus = Unknown, mVerbosity = (1 :: 8 word)\<rparr>))
   \<noteq> mVerbosity \<lparr>mName = ''t'', mLifeCycle = New, mStatus = Unknown, mVerbosity = (1 :: 8 word)\<rparr>"
  by (simp add: disableVerbosity_def enableVerbosity_def)

lemma or_and_not: "(m OR v) AND NOT v = m AND NOT (v :: 'w::len word)"
  by (simp add: bit_eq_iff bit_simps) blast

lemma and_not_self_iff: "(m AND NOT v = m) = (m AND v = (0 :: 'w::len word))"
proof
  assume h: "m AND NOT v = m"
  have "m AND v = (m AND NOT v) AND v" using h by simp
  also have "\<dots> = 0" by (simp add: bit_eq_iff bit_simps)
  finally show "m AND v = 0" .
next
  assume h: "m AND v = 0"
  have "m = (m AND v) OR (m AND NOT v)" by (simp add: bit_eq_iff bit_simps) blast
  then show "m AND NOT v = m" using h by simp
qed

text \<open>C3, as the code has it. \<^verbatim>\<open>enableVerbosity(v)\<close> followed by
  \<^verbatim>\<open>disableVerbosity(v)\<close> leaves the mask \<open>m AND NOT v\<close>: when no bit of \<open>v\<close> was
  set in the mask \<open>m\<close> before, the test is as it was, and when some bit of \<open>v\<close> was
  set, the mask has changed.\<close>

theorem enable_disable_verbosity:
  "mVerbosity (disableVerbosity v (enableVerbosity v t)) = mVerbosity t AND NOT v \<and>
   (mVerbosity t AND v = 0 \<longrightarrow> disableVerbosity v (enableVerbosity v t) = t) \<and>
   (mVerbosity t AND v \<noteq> 0 \<longrightarrow> mVerbosity (disableVerbosity v (enableVerbosity v t)) \<noteq> mVerbosity t)"
proof -
  have eq: "mVerbosity (disableVerbosity v (enableVerbosity v t)) = mVerbosity t AND NOT v"
    by (simp add: disableVerbosity_def enableVerbosity_def or_and_not)
  have same: "disableVerbosity v (enableVerbosity v t) = t" if "mVerbosity t AND v = 0"
  proof -
    have "mVerbosity t AND NOT v = mVerbosity t"
      using that by (simp add: and_not_self_iff)
    then show ?thesis
      by (simp add: disableVerbosity_def enableVerbosity_def or_and_not)
  qed
  have differ: "mVerbosity (disableVerbosity v (enableVerbosity v t)) \<noteq> mVerbosity t"
    if "mVerbosity t AND v \<noteq> 0"
    using that eq by (simp add: and_not_self_iff)
  show ?thesis using eq same differ by blast
qed

text \<open>The flag \<open>3\<close> on the mask \<open>4\<close>, which has none of its bits, and on the mask
  \<open>5\<close>, which has one.\<close>

theorem enable_disable_verbosity_witness:
  "mVerbosity \<lparr>mName = ''t'', mLifeCycle = New, mStatus = Unknown, mVerbosity = (4 :: 8 word)\<rparr> AND 3 = 0 \<and>
   disableVerbosity 3 (enableVerbosity 3
      \<lparr>mName = ''t'', mLifeCycle = New, mStatus = Unknown, mVerbosity = (4 :: 8 word)\<rparr>)
   = \<lparr>mName = ''t'', mLifeCycle = New, mStatus = Unknown, mVerbosity = (4 :: 8 word)\<rparr> \<and>
   mVerbosity \<lparr>mName = ''t'', mLifeCycle = New, mStatus = Unknown, mVerbosity = (5 :: 8 word)\<rparr> AND 3 \<noteq> 0 \<and>
   mVerbosity (disableVerbosity 3 (enableVerbosity 3
      \<lparr>mName = ''t'', mLifeCycle = New, mStatus = Unknown, mVerbosity = (5 :: 8 word)\<rparr>))
   \<noteq> 5"
  using enable_disable_verbosity [of 3 "\<lparr>mName = ''t'', mLifeCycle = New, mStatus = Unknown, mVerbosity = (4 :: 8 word)\<rparr>"]
        enable_disable_verbosity [of 3 "\<lparr>mName = ''t'', mLifeCycle = New, mStatus = Unknown, mVerbosity = (5 :: 8 word)\<rparr>"]
  by simp

section \<open>The name-length tracker\<close>

lemma maxLength_init: "maxLength (init this name w) = max (maxLength w) (strlen name)"
  by (simp add: init_def insert_test_def Let_def)

lemma maxLength_register:
  "maxLength (register decls w) = Max (insert (maxLength w) (set (map (strlen \<circ> snd) decls)))"
  unfolding register_def
proof (induction decls arbitrary: w)
  case Nil
  then show ?case by simp
next
  case (Cons d decls)
  obtain this name where d: "d = (this, name)" by (cases d)
  have "Max (insert (max (maxLength w) (strlen name)) (set (map (strlen \<circ> snd) decls)))
      = Max (insert (maxLength w) (insert (strlen name) (set (map (strlen \<circ> snd) decls))))"
    by (cases "set (map (strlen \<circ> snd) decls) = {}") (simp_all add: max.assoc)
  then show ?case using Cons.IH [of "init this name w"] by (simp add: d maxLength_init)
qed

text \<open>C8. A registration sets the tracker to the maximum of its value and the length of
  the new name; from the initial tracker, registering tests whose names have the lengths
  3, 10 and 5, in whatever order, leaves the tracker at 10.\<close>

theorem maxLength_tracks_longest_name:
  "maxLength (init this name w) = max (maxLength w) (strlen name) \<and>
   (maxLength w = initial_maxLength \<and> set (map (strlen \<circ> snd) decls) = {3, 10, 5} \<longrightarrow>
      maxLength (register decls w) = 10)"
  by (simp add: maxLength_init maxLength_register initial_maxLength_def)

text \<open>Three names of the lengths 3, 10 and 5, registered from the start state.\<close>

theorem maxLength_tracks_longest_name_witness:
  "maxLength (start :: 8 word World) = initial_maxLength \<and>
   set (map (strlen \<circ> snd)
      [(''one'', ''one''), (''test_seven'', ''test_seven''), (''three'', ''three'')]) = {3, 10, 5} \<and>
   maxLength (register
      [(''one'', ''one''), (''test_seven'', ''test_seven''), (''three'', ''three'')]
      (start :: 8 word World)) = 10"
proof -
  have lens: "map (strlen \<circ> snd)
      [(''one'', ''one''), (''test_seven'', ''test_seven''), (''three'', ''three'')] = [3, 10, 5]"
    by code_simp
  show ?thesis
    using maxLength_tracks_longest_name
      [of "''x''" "''x''" "start :: 8 word World"
          "[(''one'', ''one''), (''test_seven'', ''test_seven''), (''three'', ''three'')]"]
    unfolding lens by (simp add: start_def)
qed

section \<open>Meta-assertions\<close>

lemma pure_readI:
  assumes "\<And>name w. check name w = (p (instances w name), w)"
    and "\<And>t. p t = f (mStatus t)"
  shows "pure_read check"
  unfolding pure_read_def
proof (intro conjI allI exI)
  show "snd (check name w) = w" for name w
    by (simp add: assms(1))
  show "fst (check name w) = f (mStatus (instances w name))" for name w
    by (simp add: assms)
qed

text \<open>C7. Each of the ten checking macros is a pure read: it gives the state back
  unchanged (every field of every test, the registry, the tracker, the output), and its
  value is a function of the status of the named test alone.\<close>

theorem checkTest_pure_read:
  "pure_read checkTestDone \<and> pure_read checkTestNotDone \<and>
   pure_read checkTestPass \<and> pure_read checkTestNotPass \<and>
   pure_read checkTestFail \<and> pure_read checkTestNotFail \<and>
   pure_read checkTestSkip \<and> pure_read checkTestNotSkip \<and>
   pure_read checkTestExpire \<and> pure_read checkTestNotExpire"
proof (intro conjI)
  show "pure_read checkTestDone"
    by (rule pure_readI [where p = isDone and f = "\<lambda>s. s \<noteq> Unknown"])
       (simp_all add: checkTestDone_def isDone_def)
  show "pure_read checkTestNotDone"
    by (rule pure_readI [where p = isNotDone and f = "\<lambda>s. s = Unknown"])
       (simp_all add: checkTestNotDone_def isNotDone_def isDone_def)
  show "pure_read checkTestPass"
    by (rule pure_readI [where p = isPassed and f = "\<lambda>s. s = Passed"])
       (simp_all add: checkTestPass_def isPassed_def)
  show "pure_read checkTestNotPass"
    by (rule pure_readI [where p = isNotPassed and f = "\<lambda>s. s \<noteq> Passed"])
       (simp_all add: checkTestNotPass_def isNotPassed_def isPassed_def)
  show "pure_read checkTestFail"
    by (rule pure_readI [where p = isFailed and f = "\<lambda>s. s = Failed"])
       (simp_all add: checkTestFail_def isFailed_def)
  show "pure_read checkTestNotFail"
    by (rule pure_readI [where p = isNotFailed and f = "\<lambda>s. s \<noteq> Failed"])
       (simp_all add: checkTestNotFail_def isNotFailed_def isFailed_def)
  show "pure_read checkTestSkip"
    by (rule pure_readI [where p = isSkipped and f = "\<lambda>s. s = Skipped"])
       (simp_all add: checkTestSkip_def isSkipped_def)
  show "pure_read checkTestNotSkip"
    by (rule pure_readI [where p = isNotSkipped and f = "\<lambda>s. s \<noteq> Skipped"])
       (simp_all add: checkTestNotSkip_def isNotSkipped_def isSkipped_def)
  show "pure_read checkTestExpire"
    by (rule pure_readI [where p = isExpired and f = "\<lambda>s. s = Expired"])
       (simp_all add: checkTestExpire_def isExpired_def)
  show "pure_read checkTestNotExpire"
    by (rule pure_readI [where p = isNotExpired and f = "\<lambda>s. s \<noteq> Expired"])
       (simp_all add: checkTestNotExpire_def isNotExpired_def isExpired_def)
qed

text \<open>C4. When the predicate of an asserting meta-assertion is false on the target test,
  the body of the calling test ends in the state that differs from the state before only
  in that the caller has had \<^verbatim>\<open>setStatus(Failed)\<close> applied and that one diagnostic, with
  the caller's file and line, the target's name and the message of the expected condition,
  has been added to the output; the caller's status is \<open>Failed\<close>, its life cycle
  \<open>Asserted\<close>. The state does not depend on \<open>rest\<close>: nothing after the macro has
  run.\<close>

theorem assertTestStatus_false_fails_caller:
  assumes "\<not> method (instances w name)"
  shows "assertTestStatus verbose this file' line' name method message rest w =
           w\<lparr>instances := (instances w)(this := setStatus Failed (instances w this)),
             printed := printed w @
               [\<lparr>dOk = False, dFile = file', dLine = line', dTestName = name,
                 dStatusMessage = message\<rparr>]\<rparr> \<and>
         mStatus (instances (assertTestStatus verbose this file' line' name method message rest w)
            this) = Failed \<and>
         mLifeCycle (instances (assertTestStatus verbose this file' line' name method message rest w)
            this) = Asserted"
  using assms
  by (simp add: assertTestStatus_def assertionTestStatus_def
        printAssertionTestStatusMessage_def Let_def setStatus_fields)

text \<open>The scenario of the spec: \<open>A\<close> has failed, the body of \<open>B\<close> asserts that
  \<open>A\<close> has passed and would call \<^verbatim>\<open>pass()\<close> afterwards.\<close>

theorem assertTestStatus_false_fails_caller_witness:
  "\<not> isPassed (instances scenario ''A'') \<and>
   mStatus (instances
      (assertTestPass 0 ''B'' ''tests.ino'' 12 ''A''
         (\<lambda>w. w\<lparr>instances := (instances w)(''B'' := pass (instances w ''B''))\<rparr>) scenario)
      ''B'') = Failed \<and>
   mLifeCycle (instances
      (assertTestPass 0 ''B'' ''tests.ino'' 12 ''A''
         (\<lambda>w. w\<lparr>instances := (instances w)(''B'' := pass (instances w ''B''))\<rparr>) scenario)
      ''B'') = Asserted \<and>
   printed
      (assertTestPass 0 ''B'' ''tests.ino'' 12 ''A''
         (\<lambda>w. w\<lparr>instances := (instances w)(''B'' := pass (instances w ''B''))\<rparr>) scenario)
   = [\<lparr>dOk = False, dFile = ''tests.ino'', dLine = 12, dTestName = ''A'',
       dStatusMessage = kMessageIsPassed\<rparr>]"
proof -
  have a: "instances scenario ''A''
      = \<lparr>mName = ''A'', mLifeCycle = Asserted, mStatus = Failed, mVerbosity = kNone\<rparr>"
    by (simp add: scenario_def Let_def init_def insert_test_def fail_def setStatus_def
          setLifeCycle_def)
  have p: "printed scenario = []"
    by (simp add: scenario_def Let_def init_def insert_test_def start_def)
  show ?thesis
    using assertTestStatus_false_fails_caller
      [of isPassed scenario "''A''" 0 "''B''" "''tests.ino''" 12 kMessageIsPassed
          "\<lambda>w. w\<lparr>instances := (instances w)(''B'' := pass (instances w ''B''))\<rparr>"]
    by (simp add: a p isPassed_def assertTestPass_def setStatus_fields)
qed

end
